theory Spec2Isabelle
  imports Main "HOL-Library.Word" "HOL-Library.Multiset"
begin

section \<open>The checkpoint manager of the polybft consensus (checkpoint\_manager.go)\<close>

text \<open>
  A shallow embedding of \<^verbatim>\<open>consensus/polybft/checkpoint_manager.go\<close>. Every method of
  \<^verbatim>\<open>checkpointManager\<close> becomes a function that takes the collaborators of the manager (the
  record \<open>Env\<close>) and the mutable state it touches, and returns the new state together with
  the Go return values. A Go \<^verbatim>\<open>error\<close> result is an \<open>error option\<close> (\<open>None\<close> is
  \<^verbatim>\<open>nil\<close>); a Go \<^verbatim>\<open>(value, error)\<close> result is a sum with the error on the left.
  The debug lines written to the logger and the metrics gauge influence no result and are
  left out; the lines of the logger that report a failure are kept.
\<close>

subsection \<open>Basic types\<close>

type_synonym uint64 = "64 word"
type_synonym bytes = "8 word list"

text \<open>\<^verbatim>\<open>types.Hash\<close> is \<^verbatim>\<open>[32]byte\<close>; \<^verbatim>\<open>types.ZeroHash\<close> is its zero value.\<close>

type_synonym Hash = "256 word"

definition ZeroHash :: Hash where
  "ZeroHash = 0"

text \<open>\<^verbatim>\<open>types.Address\<close>, read through \<^verbatim>\<open>Bytes()\<close>: the byte string of the address.\<close>

type_synonym Address = bytes

definition ZeroAddress :: Address where
  "ZeroAddress = replicate 20 0"

text \<open>\<^verbatim>\<open>validator.AccountSet\<close>: its declaration is outside this file; only the empty set
  \<^verbatim>\<open>validator.AccountSet{}\<close> and values returned by \<^verbatim>\<open>GetValidators\<close> occur.\<close>

type_synonym AccountSet = "Address list"

subsection \<open>Errors\<close>

text \<open>
  The file builds all its errors with \<^verbatim>\<open>fmt.Errorf\<close>: without \<^verbatim>\<open>%w\<close> the result is a
  plain message (\<open>Errorf\<close>: format string and arguments), with \<^verbatim>\<open>%w\<close> it wraps the error
  of a callee (\<open>Wrapf\<close>). Errors that come out of a collaborator are \<open>External\<close>. The two
  run-time panics the code can raise are values as well.
\<close>

datatype fmt_arg = ArgUint uint64 | ArgString string

datatype error =
    Errorf string "fmt_arg list"
  | Wrapf string "fmt_arg list" error
  | External string
  | NilPointerDereference
  | IndexOutOfRange

subsection \<open>Headers and their consensus metadata\<close>

record Header =
  Number :: uint64
  Hash :: Hash
  ExtraData :: bytes
  Miner :: bytes

text \<open>
  \<^verbatim>\<open>Extra\<close> and its parts are declared outside this file. The code reads
  \<^verbatim>\<open>extra.Checkpoint\<close> and \<^verbatim>\<open>extra.Committed\<close> without a nil check and tests
  \<^verbatim>\<open>extra.Validators != nil\<close>, so only the validator set delta is optional here.
\<close>

record CheckpointData =
  BlockRound :: uint64
  EpochNumber :: uint64
  CurrentValidatorsHash :: Hash
  NextValidatorsHash :: Hash
  EventRoot :: Hash

record Signature =
  AggregatedSignature :: bytes
  Bitmap :: bytes

type_synonym ValidatorSetDelta = bytes

record Extra =
  Validators :: "ValidatorSetDelta option"
  Committed :: Signature
  Checkpoint :: CheckpointData

subsection \<open>Root chain payloads\<close>

text \<open>\<^verbatim>\<open>contractsapi.SubmitCheckpointManagerFn\<close> with its two nested structs.\<close>

record CheckpointMetadata =
  BlockHash :: Hash
  BlockRound :: nat
  CurrentValidatorSetHash :: Hash

record Checkpoint =
  Epoch :: nat
  BlockNumber :: nat
  EventRoot :: Hash

record SubmitCheckpointManagerFn =
  CheckpointMetadata :: CheckpointMetadata
  Checkpoint :: Checkpoint
  Signature :: "int list"
  Bitmap :: bytes
  NewValidatorSet :: AccountSet

datatype TransactionType = TransactionLegacy | TransactionAccessList | TransactionDynamicFee

record Transaction =
  To :: "Address option"
  Input :: bytes
  Type :: TransactionType

record Receipt =
  Status :: uint64
  GasUsed :: uint64

subsection \<open>Exit events, logs and proofs\<close>

text \<open>
  \<^verbatim>\<open>ExitEvent\<close> embeds \<^verbatim>\<open>contractsapi.L2StateSyncedEvent\<close> (\<open>ID\<close> is a \<^verbatim>\<open>*big.Int\<close>
  decoded from a \<^verbatim>\<open>uint256\<close>) and adds the epoch and the block it is attributed to.
\<close>

record L2StateSyncedEvent =
  ID :: nat
  Sender :: Address
  Receiver :: Address
  Data :: bytes

record ExitEvent =
  L2StateSyncedEvent :: L2StateSyncedEvent
  EpochNumber :: uint64
  BlockNumber :: uint64

text \<open>The promoted field \<^verbatim>\<open>exitEvent.ID\<close>.\<close>

definition ExitEventID :: "ExitEvent \<Rightarrow> nat" where
  "ExitEventID ev = ID (L2StateSyncedEvent ev)"

record SlashedEvent =
  ExitID :: nat

text \<open>The values behind the interface \<^verbatim>\<open>contractsapi.EventAbi\<close>, as \<^verbatim>\<open>PostBlock\<close>'s type
  switch tells them apart.\<close>

datatype EventAbi =
    ExitEventAbi ExitEvent
  | SlashedEventAbi SlashedEvent
  | OtherEventAbi

record Log =
  LogAddress :: Address
  Topics :: "Hash list"
  LogData :: bytes

record FullBlock =
  Block :: Header
  Receipts :: "Log list list"

record ProofMetadata =
  LeafIndex :: uint64
  ExitEvent :: ExitEvent
  CheckpointBlock :: nat

record Proof =
  ProofData :: "Hash list"
  Metadata :: ProofMetadata

text \<open>A value decoded from an ABI response (\<^verbatim>\<open>interface{}\<close>), with the dynamic types the
  code asserts on.\<close>

datatype abi_value =
    AbiBool bool
  | AbiBigInt nat
  | AbiBytes bytes
  | AbiMap "(string \<times> abi_value) list"

subsection \<open>The exit event store\<close>

text \<open>The operations of the store with their arguments: a failure is injected per
  operation, and the journal of the store records the writes.\<close>

datatype store_op =
    OpGetLastSaved
  | OpInsertExitEvents "ExitEvent list"
  | OpUpdateLastSaved uint64
  | OpRemoveSlashExitEvents "uint64 list"
  | OpGetExitEventsByEpoch uint64
  | OpGetExitEventsForProof uint64 uint64
  | OpGetExitEvent uint64
  | OpGetPendingSlashExitIDs

text \<open>
  Modelled from the spec: \<^verbatim>\<open>State.ExitEventStore\<close> is not part of this file. Following
  sections 3, 4.2 and 4.3 of the specification it holds the exit events keyed by
  \<open>(epoch, id)\<close> in insertion order, a single watermark, and the pending slash exit
  identifiers. \<open>journal\<close> lists the writes that were applied, oldest first.
\<close>

record ExitEventStore =
  eventTable :: "((uint64 \<times> nat) \<times> ExitEvent) list"
  lastSaved :: uint64
  pendingSlashExitIDs :: "uint64 list"
  journal :: "store_op list"

subsection \<open>Collaborators\<close>

text \<open>
  The fields of \<^verbatim>\<open>checkpointManager\<close> that never change, the interfaces behind them, and
  the functions and constants of other packages that the file calls. \<open>'t\<close> is
  \<^verbatim>\<open>*merkle.MerkleTree\<close>. \<open>SendTransaction\<close> sees the transactions sent before, so its
  answer may depend on them. \<open>storeFault\<close> says which store operations fail, and how.
\<close>

record 't Env =
  keyAddress :: Address
  checkpointManagerAddr :: Address
  GetHeaderByNumber :: "uint64 \<Rightarrow> Header option"
  GetValidators :: "uint64 \<Rightarrow> error + AccountSet"
  Call :: "Address \<Rightarrow> Address \<Rightarrow> bytes \<Rightarrow> error + string"
  SendTransaction :: "Transaction list \<Rightarrow> Transaction \<Rightarrow> error + Receipt"
  getFromBlocks :: "uint64 \<Rightarrow> FullBlock \<Rightarrow> error + EventAbi list"
  storeFault :: "store_op \<Rightarrow> error option"
  GetIbftExtra :: "bytes \<Rightarrow> error + Extra"
  UnmarshalSignature :: "bytes \<Rightarrow> error + bytes"
  ToBigInt :: "bytes \<Rightarrow> error + int list"
  EncodeSubmitCheckpoint :: "SubmitCheckpointManagerFn \<Rightarrow> error + bytes"
  EncodeCurrentCheckpointBlockNum :: "error + bytes"
  ParseUint :: "string \<Rightarrow> error + uint64"
  ReceiptFailed :: uint64
  EncodeGetCheckpointBlock :: "nat \<Rightarrow> error + bytes"
  DecodeHex :: "string \<Rightarrow> error + bytes"
  DecodeGetCheckpointBlockResponse :: "bytes \<Rightarrow> error + abi_value"
  EncodeL2StateSynced :: "L2StateSyncedEvent \<Rightarrow> error + bytes"
  NewMerkleTree :: "bytes list \<Rightarrow> error + 't"
  TreeHash :: "'t \<Rightarrow> Hash"
  TreeLeafIndex :: "'t \<Rightarrow> bytes \<Rightarrow> error + uint64"
  TreeGenerateProof :: "'t \<Rightarrow> bytes \<Rightarrow> error + Hash list"
  ExitEventSig :: Hash
  SlashedEventSig :: Hash
  ParseL2StateSyncedLog :: "Log \<Rightarrow> error + L2StateSyncedEvent"
  ParseSlashedLog :: "Log \<Rightarrow> SlashedEvent \<times> bool \<times> error option"

text \<open>The root chain as the relayer sees it: the transactions handed to
  \<^verbatim>\<open>SendTransaction\<close>, oldest first.\<close>

record RootChain =
  sent :: "Transaction list"

subsection \<open>Checkpoint submission\<close>

definition getLatestCheckpointBlock :: "'t Env \<Rightarrow> error + uint64" where
  "getLatestCheckpointBlock env =
     (case EncodeCurrentCheckpointBlockNum env of
        Inl err \<Rightarrow>
          Inl (Wrapf ''failed to encode currentCheckpointId function parameters: %w'' [] err)
      | Inr checkpointBlockNumMethodEncoded \<Rightarrow>
          (case Call env (keyAddress env) (checkpointManagerAddr env)
                  checkpointBlockNumMethodEncoded of
             Inl err \<Rightarrow>
               Inl (Wrapf ''failed to invoke currentCheckpointId function on the rootchain: %w''
                      [] err)
           | Inr latestCheckpointBlockRaw \<Rightarrow>
               (case ParseUint env latestCheckpointBlockRaw of
                  Inl err \<Rightarrow>
                    Inl (Wrapf ''failed to convert current checkpoint id '%s' to number: %w''
                           [ArgString latestCheckpointBlockRaw] err)
                | Inr latestCheckpointBlockNum \<Rightarrow> Inr latestCheckpointBlockNum)))"

text \<open>\<^verbatim>\<open>new(big.Int).SetUint64\<close> is \<open>unat\<close>. \<^verbatim>\<open>ToAPIBinding\<close> changes the representation of
  the validator set only and is the identity here.\<close>

definition abiEncodeCheckpointBlock ::
  "'t Env \<Rightarrow> uint64 \<Rightarrow> Hash \<Rightarrow> Extra \<Rightarrow> AccountSet \<Rightarrow> error + bytes" where
  "abiEncodeCheckpointBlock env blockNumber blockHash extra nextValidators =
     (case UnmarshalSignature env (AggregatedSignature (Committed extra)) of
        Inl err \<Rightarrow> Inl err
      | Inr aggs \<Rightarrow>
          (case ToBigInt env aggs of
             Inl err \<Rightarrow> Inl err
           | Inr encodedAggSigs \<Rightarrow>
               EncodeSubmitCheckpoint env
                 \<lparr> CheckpointMetadata =
                     \<lparr> BlockHash = blockHash,
                       BlockRound = unat (CheckpointData.BlockRound (Extra.Checkpoint extra)),
                       CurrentValidatorSetHash = CurrentValidatorsHash (Extra.Checkpoint extra) \<rparr>,
                   Checkpoint =
                     \<lparr> Epoch = unat (CheckpointData.EpochNumber (Extra.Checkpoint extra)),
                       BlockNumber = unat blockNumber,
                       EventRoot = CheckpointData.EventRoot (Extra.Checkpoint extra) \<rparr>,
                   Signature = encodedAggSigs,
                   Bitmap = Signature.Bitmap (Committed extra),
                   NewValidatorSet = nextValidators \<rparr>))"

definition encodeAndSendCheckpoint ::
  "'t Env \<Rightarrow> Header \<Rightarrow> Extra \<Rightarrow> bool \<Rightarrow> RootChain \<Rightarrow> error option \<times> RootChain" where
  "encodeAndSendCheckpoint env header extra isEndOfEpoch w =
     (case (if isEndOfEpoch then GetValidators env (Number header) else Inr []) of
        Inl err \<Rightarrow> (Some err, w)
      | Inr nextEpochValidators \<Rightarrow>
          (case abiEncodeCheckpointBlock env (Number header) (Hash header) extra
                  nextEpochValidators of
             Inl err \<Rightarrow>
               (Some (Wrapf ''failed to encode checkpoint data to ABI for block %d: %w''
                        [ArgUint (Number header)] err), w)
           | Inr input \<Rightarrow>
               (let txn = \<lparr> To = Some (checkpointManagerAddr env), Input = input,
                             Type = TransactionDynamicFee \<rparr>;
                    w' = w \<lparr> sent := sent w @ [txn] \<rparr>
                in case SendTransaction env (sent w) txn of
                     Inl err \<Rightarrow> (Some err, w')
                   | Inr receipt \<Rightarrow>
                       if Status receipt = ReceiptFailed env
                       then (Some (Errorf ''checkpoint submission transaction failed for block %d''
                                     [ArgUint (Number header)]), w')
                       else (None, w'))))"

text \<open>
  The local variables of \<^verbatim>\<open>submitCheckpoint\<close> that the catch-up loop reads and writes. All
  three are pointers, \<^verbatim>\<open>nil\<close> until assigned.
\<close>

record walk =
  parentHeader :: "Header option"
  parentExtra :: "Extra option"
  currentExtra :: "Extra option"

text \<open>
  The loop \<^verbatim>\<open>for blockNumber := initialBlockNumber + 1; blockNumber <= latestHeader.Number;
  blockNumber++\<close>, entered at \<open>blockNumber\<close>. The counter is a \<^verbatim>\<open>uint64\<close> and wraps, so for
  \<^verbatim>\<open>latestHeader.Number = 2^64 - 1\<close> the guard never fails; a run that does not return is
  \<open>None\<close>. Reading the epoch of a \<^verbatim>\<open>nil\<close> \<^verbatim>\<open>parentExtra\<close> panics.
\<close>

partial_function (option) pendingCheckpoints ::
  "'t Env \<Rightarrow> Header \<Rightarrow> uint64 \<Rightarrow> walk \<Rightarrow> RootChain \<Rightarrow> ((error + walk) \<times> RootChain) option" where
  "pendingCheckpoints env latestHeader blockNumber s w =
     (if blockNumber \<le> Number latestHeader then
        (case GetHeaderByNumber env blockNumber of
           None \<Rightarrow> Some (Inl (Errorf ''block %d was not found'' [ArgUint blockNumber]), w)
         | Some currentHeader \<Rightarrow>
             (case GetIbftExtra env (ExtraData currentHeader) of
                Inl err \<Rightarrow> Some (Inl err, w)
              | Inr curExtra \<Rightarrow>
                  (case parentExtra s of
                     None \<Rightarrow> Some (Inl NilPointerDereference, w)
                   | Some parExtra \<Rightarrow>
                       if blockNumber = 1 \<or>
                          CheckpointData.EpochNumber (Extra.Checkpoint parExtra) =
                          CheckpointData.EpochNumber (Extra.Checkpoint curExtra)
                       then pendingCheckpoints env latestHeader (blockNumber + 1)
                              \<lparr> parentHeader = Some currentHeader, parentExtra = Some curExtra,
                                currentExtra = Some curExtra \<rparr> w
                       else
                         (case parentHeader s of
                            None \<Rightarrow> Some (Inl NilPointerDereference, w)
                          | Some parHeader \<Rightarrow>
                              (case encodeAndSendCheckpoint env parHeader parExtra True w of
                                 (Some err, w') \<Rightarrow> Some (Inl err, w')
                               | (None, w') \<Rightarrow>
                                   pendingCheckpoints env latestHeader (blockNumber + 1)
                                     \<lparr> parentHeader = Some currentHeader,
                                       parentExtra = Some curExtra,
                                       currentExtra = Some curExtra \<rparr> w')))))
      else Some (Inr s, w))"

definition submitCheckpoint ::
  "'t Env \<Rightarrow> Header \<Rightarrow> bool \<Rightarrow> RootChain \<Rightarrow> (error option \<times> RootChain) option" where
  "submitCheckpoint env latestHeader isEndOfEpoch w =
     (case getLatestCheckpointBlock env of
        Inl err \<Rightarrow> Some (Some err, w)
      | Inr lastCheckpointBlockNumber \<Rightarrow>
          (let initialBlockNumber = lastCheckpointBlockNumber + 1 in
           case (if initialBlockNumber < Number latestHeader then
                   (case GetHeaderByNumber env initialBlockNumber of
                      None \<Rightarrow> Inl (Errorf ''block %d was not found'' [ArgUint initialBlockNumber])
                    | Some parHeader \<Rightarrow>
                        (case GetIbftExtra env (ExtraData parHeader) of
                           Inl err \<Rightarrow> Inl err
                         | Inr parExtra \<Rightarrow>
                             Inr \<lparr> parentHeader = Some parHeader, parentExtra = Some parExtra,
                                   currentExtra = None \<rparr>))
                 else Inr \<lparr> parentHeader = None, parentExtra = None, currentExtra = None \<rparr>) of
             Inl err \<Rightarrow> Some (Some err, w)
           | Inr s0 \<Rightarrow>
               (case pendingCheckpoints env latestHeader (initialBlockNumber + 1) s0 w of
                  None \<Rightarrow> None
                | Some (Inl err, w') \<Rightarrow> Some (Some err, w')
                | Some (Inr s, w') \<Rightarrow>
                    (case currentExtra s of
                       Some curExtra \<Rightarrow>
                         Some (encodeAndSendCheckpoint env latestHeader curExtra isEndOfEpoch w')
                     | None \<Rightarrow>
                         (case GetIbftExtra env (ExtraData latestHeader) of
                            Inl err \<Rightarrow> Some (Some err, w')
                          | Inr curExtra \<Rightarrow>
                              Some (encodeAndSendCheckpoint env latestHeader curExtra
                                      isEndOfEpoch w'))))))"


subsection \<open>Operations of the exit event store\<close>

text \<open>
  The methods of \<^verbatim>\<open>ExitEventStore\<close> are not part of this file; each is modelled from
  section 4.2 of the specification. Any operation may fail with a storage error (section
  7), and then it changes nothing.
\<close>

text \<open>Modelled from the spec: the write of one event inside \<^verbatim>\<open>insertExitEvents\<close>, which is
  missing. Events are keyed by \<open>(epoch, id)\<close> and appended, so the insertion order is
  kept; a key that is present keeps its place.\<close>

fun putExitEvent ::
  "ExitEvent \<Rightarrow> ((uint64 \<times> nat) \<times> ExitEvent) list \<Rightarrow> ((uint64 \<times> nat) \<times> ExitEvent) list" where
  "putExitEvent ev [] = [((ExitEvent.EpochNumber ev, ExitEventID ev), ev)]"
| "putExitEvent ev (p # ps) =
     (if fst p = (ExitEvent.EpochNumber ev, ExitEventID ev)
      then ((ExitEvent.EpochNumber ev, ExitEventID ev), ev) # ps
      else p # putExitEvent ev ps)"

text \<open>Modelled from the spec: the loop of \<^verbatim>\<open>insertExitEvents\<close>, which is missing, over
  the events in the given order.\<close>

fun putExitEvents ::
  "ExitEvent list \<Rightarrow> ((uint64 \<times> nat) \<times> ExitEvent) list \<Rightarrow> ((uint64 \<times> nat) \<times> ExitEvent) list" where
  "putExitEvents [] tbl = tbl"
| "putExitEvents (ev # evs) tbl = putExitEvents evs (putExitEvent ev tbl)"

text \<open>Modelled from the spec: \<^verbatim>\<open>getLastSaved\<close> is missing; it reads the watermark.\<close>

definition getLastSaved :: "'t Env \<Rightarrow> ExitEventStore \<Rightarrow> error + uint64" where
  "getLastSaved env st =
     (case storeFault env OpGetLastSaved of
        Some err \<Rightarrow> Inl err
      | None \<Rightarrow> Inr (lastSaved st))"

text \<open>Modelled from the spec: \<^verbatim>\<open>insertExitEvents\<close> is missing; it appends the events and is a
  no-op on the empty sequence.\<close>

definition insertExitEvents ::
  "'t Env \<Rightarrow> ExitEvent list \<Rightarrow> ExitEventStore \<Rightarrow> error + ExitEventStore" where
  "insertExitEvents env evs st =
     (if evs = [] then Inr st
      else case storeFault env (OpInsertExitEvents evs) of
             Some err \<Rightarrow> Inl err
           | None \<Rightarrow>
               Inr (st \<lparr> eventTable := putExitEvents evs (eventTable st),
                         journal := journal st @ [OpInsertExitEvents evs] \<rparr>))"

text \<open>Modelled from the spec: \<^verbatim>\<open>updateLastSaved\<close> is missing; it writes the watermark.\<close>

definition updateLastSaved :: "'t Env \<Rightarrow> uint64 \<Rightarrow> ExitEventStore \<Rightarrow> error + ExitEventStore" where
  "updateLastSaved env block st =
     (case storeFault env (OpUpdateLastSaved block) of
        Some err \<Rightarrow> Inl err
      | None \<Rightarrow>
          Inr (st \<lparr> lastSaved := block, journal := journal st @ [OpUpdateLastSaved block] \<rparr>))"

text \<open>Modelled from the spec: \<^verbatim>\<open>removeSlashExitEvents\<close> is missing; an idempotent bulk
  delete from the pending slash exits that ignores absent identifiers.\<close>

definition removeSlashExitEvents ::
  "'t Env \<Rightarrow> uint64 list \<Rightarrow> ExitEventStore \<Rightarrow> error + ExitEventStore" where
  "removeSlashExitEvents env ids st =
     (case storeFault env (OpRemoveSlashExitEvents ids) of
        Some err \<Rightarrow> Inl err
      | None \<Rightarrow>
          Inr (st \<lparr> pendingSlashExitIDs := filter (\<lambda>i. i \<notin> set ids) (pendingSlashExitIDs st),
                    journal := journal st @ [OpRemoveSlashExitEvents ids] \<rparr>))"

text \<open>Modelled from the spec: \<^verbatim>\<open>getExitEventsByEpoch\<close> is missing; a range read of the events
  of the epoch, in stored order.\<close>

definition getExitEventsByEpoch ::
  "'t Env \<Rightarrow> uint64 \<Rightarrow> ExitEventStore \<Rightarrow> error + ExitEvent list" where
  "getExitEventsByEpoch env epoch st =
     (case storeFault env (OpGetExitEventsByEpoch epoch) of
        Some err \<Rightarrow> Inl err
      | None \<Rightarrow> Inr (map snd (filter (\<lambda>p. fst (fst p) = epoch) (eventTable st))))"

text \<open>Modelled from the spec: \<^verbatim>\<open>getExitEventsForProof\<close> is missing; the range read
  restricted to the events with \<open>BlockNumber \<le> maxBlockNumber\<close>.\<close>

definition getExitEventsForProof ::
  "'t Env \<Rightarrow> uint64 \<Rightarrow> uint64 \<Rightarrow> ExitEventStore \<Rightarrow> error + ExitEvent list" where
  "getExitEventsForProof env epoch maxBlockNumber st =
     (case storeFault env (OpGetExitEventsForProof epoch maxBlockNumber) of
        Some err \<Rightarrow> Inl err
      | None \<Rightarrow>
          Inr (map snd (filter (\<lambda>p. fst (fst p) = epoch \<and>
                                      ExitEvent.BlockNumber (snd p) \<le> maxBlockNumber)
                          (eventTable st))))"

text \<open>Modelled from the spec: \<^verbatim>\<open>getExitEvent\<close> is missing; a point lookup by identifier that
  fails with a not-found error if the event is absent.\<close>

definition getExitEvent :: "'t Env \<Rightarrow> uint64 \<Rightarrow> ExitEventStore \<Rightarrow> error + ExitEvent" where
  "getExitEvent env exitID st =
     (case storeFault env (OpGetExitEvent exitID) of
        Some err \<Rightarrow> Inl err
      | None \<Rightarrow>
          (case find (\<lambda>p. snd (fst p) = unat exitID) (eventTable st) of
             None \<Rightarrow> Inl (Errorf ''exit event %d not found'' [ArgUint exitID])
           | Some p \<Rightarrow> Inr (snd p)))"

text \<open>Modelled from the spec: \<^verbatim>\<open>getPendingSlashExitIDs\<close> is missing; it returns the pending
  slash exit identifiers.\<close>

definition getPendingSlashExitIDs :: "'t Env \<Rightarrow> ExitEventStore \<Rightarrow> error + uint64 list" where
  "getPendingSlashExitIDs env st =
     (case storeFault env OpGetPendingSlashExitIDs of
        Some err \<Rightarrow> Inl err
      | None \<Rightarrow> Inr (pendingSlashExitIDs st))"

subsection \<open>The exit tree and the event root\<close>

text \<open>The loop of \<^verbatim>\<open>createExitTree\<close>: the encodings of the events in order, or the first
  encoding error.\<close>

fun encodeExitEvents :: "'t Env \<Rightarrow> ExitEvent list \<Rightarrow> error + bytes list" where
  "encodeExitEvents env [] = Inr []"
| "encodeExitEvents env (ev # evs) =
     (case EncodeL2StateSynced env (L2StateSyncedEvent ev) of
        Inl err \<Rightarrow> Inl err
      | Inr b \<Rightarrow>
          (case encodeExitEvents env evs of
             Inl err \<Rightarrow> Inl err
           | Inr bs \<Rightarrow> Inr (b # bs)))"

definition createExitTree :: "'t Env \<Rightarrow> ExitEvent list \<Rightarrow> error + 't" where
  "createExitTree env exitEvents =
     (case encodeExitEvents env exitEvents of
        Inl err \<Rightarrow> Inl err
      | Inr data \<Rightarrow> NewMerkleTree env data)"

text \<open>On an error the Go function returns \<^verbatim>\<open>types.ZeroHash\<close> beside it; the sum keeps the
  error only.\<close>

definition BuildEventRoot :: "'t Env \<Rightarrow> ExitEventStore \<Rightarrow> uint64 \<Rightarrow> error + Hash" where
  "BuildEventRoot env st epoch =
     (case getExitEventsByEpoch env epoch st of
        Inl err \<Rightarrow> Inl err
      | Inr exitEvents \<Rightarrow>
          if length exitEvents = 0 then Inr ZeroHash
          else (case createExitTree env exitEvents of
                  Inl err \<Rightarrow> Inl err
                | Inr tree \<Rightarrow> Inr (TreeHash env tree)))"

subsection \<open>Exit proofs\<close>

text \<open>On an error the Go function returns the empty \<^verbatim>\<open>types.Proof{}\<close> beside it; the sum
  keeps the error only. \<^verbatim>\<open>big.Int.Uint64\<close> keeps the low 64 bits.\<close>

definition GenerateExitProof :: "'t Env \<Rightarrow> ExitEventStore \<Rightarrow> uint64 \<Rightarrow> error + Proof" where
  "GenerateExitProof env st exitID =
     (case getExitEvent env exitID st of
        Inl err \<Rightarrow> Inl err
      | Inr exitEvent \<Rightarrow>
     (case EncodeGetCheckpointBlock env (unat (ExitEvent.BlockNumber exitEvent)) of
        Inl err \<Rightarrow> Inl (Wrapf ''failed to encode get checkpoint block input: %w'' [] err)
      | Inr input \<Rightarrow>
     (case Call env ZeroAddress (checkpointManagerAddr env) input of
        Inl err \<Rightarrow>
          Inl (Wrapf ''failed to retrieve checkpoint block for exit ID %d: %w''
                 [ArgUint exitID] err)
      | Inr getCheckpointBlockResp \<Rightarrow>
     (case DecodeHex env getCheckpointBlockResp of
        Inl err \<Rightarrow>
          Inl (Wrapf ''failed to decode hex response for exit ID %d: %w'' [ArgUint exitID] err)
      | Inr getCheckpointBlockRespRaw \<Rightarrow>
     (case DecodeGetCheckpointBlockResponse env getCheckpointBlockRespRaw of
        Inl err \<Rightarrow>
          Inl (Wrapf ''failed to decode checkpoint block response for exit ID %d: %w''
                 [ArgUint exitID] err)
      | Inr getCheckpointBlockGeneric \<Rightarrow>
     (case getCheckpointBlockGeneric of
        AbiMap checkpointBlockMap \<Rightarrow>
          (case map_of checkpointBlockMap ''isFound'' of
             None \<Rightarrow> Inl (Errorf ''invalid response for exit ID %d'' [ArgUint exitID])
           | Some isFoundGeneric \<Rightarrow>
               if isFoundGeneric \<noteq> AbiBool True
               then Inl (Errorf ''checkpoint block not found for exit ID %d'' [ArgUint exitID])
               else
                 (case map_of checkpointBlockMap ''checkpointBlock'' of
                    Some (AbiBigInt checkpointBlock) \<Rightarrow>
                      (case EncodeL2StateSynced env (L2StateSyncedEvent exitEvent) of
                         Inl err \<Rightarrow> Inl err
                       | Inr e \<Rightarrow>
                      (case getExitEventsForProof env (ExitEvent.EpochNumber exitEvent)
                              (of_nat checkpointBlock) st of
                         Inl err \<Rightarrow> Inl err
                       | Inr exitEvents \<Rightarrow>
                      (case createExitTree env exitEvents of
                         Inl err \<Rightarrow> Inl err
                       | Inr tree \<Rightarrow>
                      (case TreeLeafIndex env tree e of
                         Inl err \<Rightarrow> Inl err
                       | Inr leafIndex \<Rightarrow>
                      (case TreeGenerateProof env tree e of
                         Inl err \<Rightarrow> Inl err
                       | Inr proof \<Rightarrow>
                           Inr \<lparr> ProofData = proof,
                                 Metadata = \<lparr> LeafIndex = leafIndex, ExitEvent = exitEvent,
                                              CheckpointBlock = checkpointBlock \<rparr> \<rparr>)))))
                  | _ \<Rightarrow>
                      Inl (Errorf ''checkpoint block not found for exit ID %d''
                             [ArgUint exitID])))
      | _ \<Rightarrow>
          Inl (Errorf ''failed to convert for checkpoint block response exit ID %d''
                 [ArgUint exitID])))))))"

text \<open>
  The loop of \<^verbatim>\<open>GenerateSlashExitProofs\<close> over the pending identifiers, with the proofs
  collected so far. A failed identifier leaves a line in the log and the loop goes on.
\<close>

datatype log_line =
    Info string "fmt_arg list" error
  | Warn string uint64 uint64 error

fun slashExitProofs ::
  "'t Env \<Rightarrow> ExitEventStore \<Rightarrow> uint64 list \<Rightarrow> Proof list \<Rightarrow> log_line list \<Rightarrow>
   Proof list \<times> log_line list" where
  "slashExitProofs env st [] proofs logs = (proofs, logs)"
| "slashExitProofs env st (slashExitID # ids) proofs logs =
     (case GenerateExitProof env st slashExitID of
        Inl err \<Rightarrow>
          slashExitProofs env st ids proofs
            (logs @ [Info ''failed to create a proof for slash exit event (ID=%d): %v''
                       [ArgUint slashExitID] err])
      | Inr proof \<Rightarrow> slashExitProofs env st ids (proofs @ [proof]) logs)"

definition GenerateSlashExitProofs ::
  "'t Env \<Rightarrow> ExitEventStore \<Rightarrow> (error + Proof list) \<times> log_line list" where
  "GenerateSlashExitProofs env st =
     (case getPendingSlashExitIDs env st of
        Inl err \<Rightarrow> (Inl (Wrapf ''failed to retrieve pending slash exit ids: %w'' [] err), [])
      | Inr slashExitIDs \<Rightarrow>
          (case slashExitProofs env st slashExitIDs [] [] of
             (proofs, logs) \<Rightarrow> (Inr proofs, logs)))"

subsection \<open>Parsing events\<close>

text \<open>
  Modelled from the spec: \<^verbatim>\<open>decodeExitEvent\<close> is not part of this file. Sections 3 and 4.1:
  an exit event is created by decoding a matching log and carries the epoch and block it
  is attributed to.
\<close>

definition decodeExitEvent :: "'t Env \<Rightarrow> Log \<Rightarrow> uint64 \<Rightarrow> uint64 \<Rightarrow> error + ExitEvent" where
  "decodeExitEvent env l epoch block =
     (case ParseL2StateSyncedLog env l of
        Inl err \<Rightarrow> Inl err
      | Inr ev \<Rightarrow> Inr \<lparr> L2StateSyncedEvent = ev, EpochNumber = epoch, BlockNumber = block \<rparr>)"

text \<open>\<^verbatim>\<open>parseEvent\<close> returns the event (or \<^verbatim>\<open>nil\<close>), the match flag and the error.
  \<^verbatim>\<open>l.Topics[0]\<close> panics on a log without topics.\<close>

definition parseEvent ::
  "'t Env \<Rightarrow> Header \<Rightarrow> Log \<Rightarrow> EventAbi option \<times> bool \<times> error option" where
  "parseEvent env h l =
     (case Topics l of
        [] \<Rightarrow> (None, False, Some IndexOutOfRange)
      | topic0 # _ \<Rightarrow>
          if topic0 = ExitEventSig env then
            (case GetIbftExtra env (ExtraData h) of
               Inl err \<Rightarrow>
                 (None, False,
                  Some (Wrapf ''could not get header extra on exit event parsing. Error: %w''
                          [] err))
             | Inr extra \<Rightarrow>
                 (let epoch = CheckpointData.EpochNumber (Extra.Checkpoint extra);
                      block = Number h;
                      epoch' = (if Validators extra \<noteq> None then epoch + 1 else epoch);
                      block' = (if Validators extra \<noteq> None then block + 1 else block)
                  in case decodeExitEvent env l epoch' block' of
                       Inl err \<Rightarrow> (None, False, Some err)
                     | Inr event \<Rightarrow> (Some (ExitEventAbi event), True, None)))
          else if topic0 = SlashedEventSig env then
            (case ParseSlashedLog env l of
               (slashedEvent, matches, err) \<Rightarrow> (Some (SlashedEventAbi slashedEvent), matches, err))
          else (None, False, None))"

subsection \<open>The block-finalization hook\<close>

record PostBlockRequest =
  FullBlock :: FullBlock
  Epoch :: uint64
  IsEpochEndingBlock :: bool
  CheckpointInterval :: uint64

text \<open>
  The fields of \<^verbatim>\<open>checkpointManager\<close> that change. \<open>spawned\<close> lists the goroutines that
  \<^verbatim>\<open>PostBlock\<close> has started, each with the header, the epoch number and the
  \<^verbatim>\<open>IsEpochEndingBlock\<close> flag it captured.
\<close>

record checkpointManager =
  lastSentBlock :: uint64
  state :: ExitEventStore
  spawned :: "(Header \<times> uint64 \<times> bool) list"

definition isCheckpointBlock :: "checkpointManager \<Rightarrow> uint64 \<Rightarrow> uint64 \<Rightarrow> bool \<Rightarrow> bool" where
  "isCheckpointBlock c blockNumber checkpointsOffset isEpochEndingBlock =
     (isEpochEndingBlock \<or> blockNumber = lastSentBlock c + checkpointsOffset)"

text \<open>The type switch of \<^verbatim>\<open>PostBlock\<close> over the extracted events.\<close>

fun splitEvents ::
  "EventAbi list \<Rightarrow> ExitEvent list \<Rightarrow> SlashedEvent list \<Rightarrow> ExitEvent list \<times> SlashedEvent list" where
  "splitEvents [] exitEvents slashedEvents = (exitEvents, slashedEvents)"
| "splitEvents (ExitEventAbi ev # es) exitEvents slashedEvents =
     splitEvents es (exitEvents @ [ev]) slashedEvents"
| "splitEvents (SlashedEventAbi ev # es) exitEvents slashedEvents =
     splitEvents es exitEvents (slashedEvents @ [ev])"
| "splitEvents (OtherEventAbi # es) exitEvents slashedEvents =
     splitEvents es exitEvents slashedEvents"

text \<open>
  \<^verbatim>\<open>sort.Slice\<close> with the comparison \<^verbatim>\<open>ID.Cmp < 0\<close> is \<open>sort_key ExitEventID\<close>: the Go sort
  is not stable, but events with equal identifiers aside, an ascending order is unique.
\<close>

definition PostBlock ::
  "'t Env \<Rightarrow> PostBlockRequest \<Rightarrow> checkpointManager \<Rightarrow> error option \<times> checkpointManager" where
  "PostBlock env req c =
     (let block = Number (Block (FullBlock req)) in
      case getLastSaved env (state c) of
        Inl err \<Rightarrow>
          (Some (Wrapf ''could not get last processed block for exit events. Error: %w'' [] err),
           c)
      | Inr lastBlock \<Rightarrow>
     (case getFromBlocks env lastBlock (FullBlock req) of
        Inl err \<Rightarrow> (Some err, c)
      | Inr events \<Rightarrow>
     (case splitEvents events [] [] of
        (unsorted, slashedEvents) \<Rightarrow>
     (let exitEvents = sort_key ExitEventID unsorted in
      case insertExitEvents env exitEvents (state c) of
        Inl err \<Rightarrow> (Some err, c)
      | Inr st1 \<Rightarrow>
     (case updateLastSaved env block st1 of
        Inl err \<Rightarrow> (Some err, c \<lparr> state := st1 \<rparr>)
      | Inr st2 \<Rightarrow>
     (case removeSlashExitEvents env (map (\<lambda>event. of_nat (ExitID event)) slashedEvents) st2 of
        Inl err \<Rightarrow> (Some err, c \<lparr> state := st2 \<rparr>)
      | Inr st3 \<Rightarrow>
          if isCheckpointBlock c (Number (Block (FullBlock req))) (CheckpointInterval req)
               (IsEpochEndingBlock req) \<and>
             keyAddress env = Miner (Block (FullBlock req))
          then (None, c \<lparr> lastSentBlock := Number (Block (FullBlock req)),
                          state := st3,
                          spawned := spawned c @
                            [(Block (FullBlock req), PostBlockRequest.Epoch req,
                              IsEpochEndingBlock req)] \<rparr>)
          else (None, c \<lparr> state := st3 \<rparr>)))))))"

text \<open>
  How the goroutine that \<^verbatim>\<open>PostBlock\<close> starts comes to an end. Its body runs
  \<^verbatim>\<open>submitCheckpoint\<close> and writes a warning to the log when that returns an error; it hands
  no result back. A panic inside \<^verbatim>\<open>submitCheckpoint\<close> is not a returned error: the
  goroutine has no \<^verbatim>\<open>recover\<close>, so the panic ends the process and nothing is logged.
\<close>

datatype goroutine_end =
    Returned RootChain "log_line list"
  | Panicked error RootChain

definition PostBlock_goroutine ::
  "'t Env \<Rightarrow> Header \<times> uint64 \<times> bool \<Rightarrow> RootChain \<times> log_line list \<Rightarrow> goroutine_end option" where
  "PostBlock_goroutine env task wl =
     (case task of (header, epochNumber, isEpochEndingBlock) \<Rightarrow>
        (case submitCheckpoint env header isEpochEndingBlock (fst wl) of
           None \<Rightarrow> None
         | Some (None, w') \<Rightarrow> Some (Returned w' (snd wl))
         | Some (Some err, w') \<Rightarrow>
             if err = NilPointerDereference \<or> err = IndexOutOfRange
             then Some (Panicked err w')
             else Some (Returned w'
                         (snd wl @
                          [Warn ''failed to submit checkpoint'' (Number header) epochNumber
                             err]))))"


subsection \<open>Notions used in the statements\<close>

text \<open>The exit events and the slashed events among the extracted events, in the order of
  extraction.\<close>

definition exitsOf :: "EventAbi list \<Rightarrow> ExitEvent list" where
  "exitsOf events =
     List.map_filter (\<lambda>e. case e of ExitEventAbi ev \<Rightarrow> Some ev | _ \<Rightarrow> None) events"

definition slashedOf :: "EventAbi list \<Rightarrow> SlashedEvent list" where
  "slashedOf events =
     List.map_filter (\<lambda>e. case e of SlashedEventAbi ev \<Rightarrow> Some ev | _ \<Rightarrow> None) events"



subsection \<open>A small chain for concrete runs\<close>

text \<open>
  Headers 0 to 40 with three epochs: blocks up to 15, 16 to 25 and 26 to 40; blocks 15, 25
  and 40 end an epoch and carry a validator set delta. The extra data of a header is two
  bytes, the epoch and the end-of-epoch flag. The root chain has accepted the checkpoint
  of block 10 and maps the blocks up to 12 to the checkpoint of block 40.
\<close>

definition demoHeader :: "uint64 \<Rightarrow> Header" where
  "demoHeader n =
     \<lparr> Number = n, Hash = ucast n,
       ExtraData = [if n \<le> 15 then 1 else if n \<le> 25 then 2 else 3,
                    if n = 15 \<or> n = 25 \<or> n = 40 then 1 else 0],
       Miner = [7] \<rparr>"

definition demoExtra :: "8 word \<Rightarrow> 8 word \<Rightarrow> Extra" where
  "demoExtra e v =
     \<lparr> Validators = (if v = 1 then Some [] else None),
       Committed = \<lparr> AggregatedSignature = [e], Signature.Bitmap = [v] \<rparr>,
       Extra.Checkpoint =
         \<lparr> CheckpointData.BlockRound = 0, CheckpointData.EpochNumber = ucast e,
           CurrentValidatorsHash = 0, NextValidatorsHash = 0,
           CheckpointData.EventRoot = 0 \<rparr> \<rparr>"

definition demoExtraOf :: "uint64 \<Rightarrow> Extra" where
  "demoExtraOf n =
     demoExtra (if n \<le> 15 then 1 else if n \<le> 25 then 2 else 3)
               (if n = 15 \<or> n = 25 \<or> n = 40 then 1 else 0)"

definition demoInput :: "uint64 \<Rightarrow> bytes" where
  "demoInput n = [if n \<le> 15 then 1 else if n \<le> 25 then 2 else 3, ucast n, 1]"

definition demoEvent :: "nat \<Rightarrow> uint64 \<Rightarrow> uint64 \<Rightarrow> ExitEvent" where
  "demoEvent i epoch block =
     \<lparr> L2StateSyncedEvent = \<lparr> ID = i, Sender = [], Receiver = [], Data = [] \<rparr>,
       EpochNumber = epoch, BlockNumber = block \<rparr>"

definition demoEvents :: "EventAbi list" where
  "demoEvents =
     [ExitEventAbi (demoEvent 6 2 13), SlashedEventAbi \<lparr> ExitID = 2 \<rparr>,
      ExitEventAbi (demoEvent 4 1 13), OtherEventAbi, ExitEventAbi (demoEvent 5 2 13)]"

definition demoEnv :: "bytes list Env" where
  "demoEnv =
     \<lparr> keyAddress = [7],
       checkpointManagerAddr = [9],
       GetHeaderByNumber = (\<lambda>n. if n \<le> 40 then Some (demoHeader n) else None),
       GetValidators = (\<lambda>n. Inr [[ucast n]]),
       Call = (\<lambda>from to data.
                 case data of
                   [m] \<Rightarrow> if m = 0 then Inr ''10'' else Inl (External ''unknown method'')
                 | [m, b] \<Rightarrow>
                     if m = 1 then Inr (if b \<le> 12 then ''found'' else ''none'')
                     else Inl (External ''unknown method'')
                 | _ \<Rightarrow> Inl (External ''unknown method'')),
       SendTransaction = (\<lambda>hist txn. Inr \<lparr> Status = 1, GasUsed = 21000 \<rparr>),
       getFromBlocks = (\<lambda>lastBlock fullBlock. Inr demoEvents),
       storeFault = (\<lambda>op. None),
       GetIbftExtra = (\<lambda>bs. case bs of
                               [e, v] \<Rightarrow> Inr (demoExtra e v)
                             | _ \<Rightarrow> Inl (External ''malformed extra data'')),
       UnmarshalSignature = (\<lambda>bs. Inr bs),
       ToBigInt = (\<lambda>bs. Inr (map uint bs)),
       EncodeSubmitCheckpoint =
         (\<lambda>sub. Inr [of_nat (Checkpoint.Epoch (SubmitCheckpointManagerFn.Checkpoint sub)),
                      of_nat (Checkpoint.BlockNumber (SubmitCheckpointManagerFn.Checkpoint sub)),
                      of_nat (length (NewValidatorSet sub))]),
       EncodeCurrentCheckpointBlockNum = Inr [0],
       ParseUint = (\<lambda>s. if s = ''10'' then Inr 10 else Inl (External ''invalid syntax'')),
       ReceiptFailed = 0,
       EncodeGetCheckpointBlock = (\<lambda>n. Inr [1, of_nat n]),
       DecodeHex = (\<lambda>s. if s = ''found'' then Inr [1, 40]
                         else if s = ''none'' then Inr [0, 0]
                         else Inl (External ''not a hex string'')),
       DecodeGetCheckpointBlockResponse =
         (\<lambda>raw. case raw of
                   [f, b] \<Rightarrow> Inr (AbiMap [(''isFound'', AbiBool (f = 1)),
                                            (''checkpointBlock'', AbiBigInt (unat b))])
                 | _ \<Rightarrow> Inl (External ''short response'')),
       EncodeL2StateSynced = (\<lambda>ev. Inr [of_nat (ID ev)]),
       NewMerkleTree = (\<lambda>data. if data = [] then Inl (External ''no leaves'') else Inr data),
       TreeHash = (\<lambda>tree. of_nat (length tree)),
       TreeLeafIndex =
         (\<lambda>tree e. if e \<in> set tree then Inr (of_nat (length (takeWhile (\<lambda>x. x \<noteq> e) tree)))
                    else Inl (External ''leaf not found'')),
       TreeGenerateProof =
         (\<lambda>tree e. if e \<in> set tree
                    then Inr (map (\<lambda>x. of_nat (length x)) (filter (\<lambda>x. x \<noteq> e) tree))
                    else Inl (External ''leaf not found'')),
       ExitEventSig = 1,
       SlashedEventSig = 2,
       ParseL2StateSyncedLog =
         (\<lambda>l. Inr \<lparr> ID = length (LogData l), Sender = LogAddress l, Receiver = [],
                     Data = LogData l \<rparr>),
       ParseSlashedLog = (\<lambda>l. (\<lparr> ExitID = length (LogData l) \<rparr>, True, None)) \<rparr>"

definition demoStore :: ExitEventStore where
  "demoStore =
     \<lparr> eventTable = [((1, 1), demoEvent 1 1 11), ((2, 2), demoEvent 2 2 20),
                     ((1, 3), demoEvent 3 1 12)],
       lastSaved = 12,
       pendingSlashExitIDs = [1, 2, 3],
       journal = [] \<rparr>"

definition demoRequest :: PostBlockRequest where
  "demoRequest =
     \<lparr> FullBlock = \<lparr> Block = demoHeader 13, Receipts = [] \<rparr>,
       Epoch = 1, IsEpochEndingBlock = False, CheckpointInterval = 3 \<rparr>"

definition demoManager :: checkpointManager where
  "demoManager = \<lparr> lastSentBlock = 10, state = demoStore, spawned = [] \<rparr>"

definition demoLog :: Log where
  "demoLog = \<lparr> LogAddress = [5], Topics = [1, 77], LogData = [0, 0, 0] \<rparr>"

definition demoTx :: "bytes \<Rightarrow> Transaction" where
  "demoTx input = \<lparr> To = Some [9], Input = input, Type = TransactionDynamicFee \<rparr>"

text \<open>The same events in another order of extraction, an extractor that fails, and a root
  chain whose latest checkpoint is block 38.\<close>

definition demoEventsReordered :: "EventAbi list" where
  "demoEventsReordered =
     [ExitEventAbi (demoEvent 4 1 13), ExitEventAbi (demoEvent 5 2 13),
      SlashedEventAbi \<lparr> ExitID = 2 \<rparr>, OtherEventAbi, ExitEventAbi (demoEvent 6 2 13)]"

definition demoEnvReordered :: "bytes list Env" where
  "demoEnvReordered = demoEnv \<lparr> getFromBlocks := \<lambda>lastBlock fullBlock. Inr demoEventsReordered \<rparr>"

definition demoEnvNoEvents :: "bytes list Env" where
  "demoEnvNoEvents =
     demoEnv \<lparr> getFromBlocks := \<lambda>lastBlock fullBlock. Inl (External ''header extra unreadable'') \<rparr>"

definition demoEnv38 :: "bytes list Env" where
  "demoEnv38 = demoEnv \<lparr> ParseUint := \<lambda>s. Inr 38 \<rparr>"

text \<open>A root chain that cannot be reached, and one whose latest checkpoint is block 39.\<close>

definition demoEnvRejecting :: "bytes list Env" where
  "demoEnvRejecting =
     demoEnv \<lparr> SendTransaction := \<lambda>hist txn. Inl (External ''connection refused'') \<rparr>"

definition demoEnv39 :: "bytes list Env" where
  "demoEnv39 = demoEnv \<lparr> ParseUint := \<lambda>s. Inr 39 \<rparr>"

text \<open>A header with the number of block 40 whose extra data differ from those of the header
  that the blockchain stores under this number.\<close>

definition demoForeignHeader :: Header where
  "demoForeignHeader = \<lparr> Number = 40, Hash = 40, ExtraData = [9, 0], Miner = [7] \<rparr>"

text \<open>
  Two exit events of epoch 1, the one with the larger identifier in the earlier block. One
  node handles the blocks 13 and 14 in two calls of \<^verbatim>\<open>PostBlock\<close>; another node is behind
  and extracts both blocks in the call for block 14. The hash of a tree here depends on
  the order of its leaves.
\<close>

definition demoEnvChained :: "bytes list Env" where
  "demoEnvChained =
     demoEnv \<lparr> TreeHash :=
       \<lambda>tree. foldl (\<lambda>h leaf. h * 256 + (case leaf of [] \<Rightarrow> 0 | b # bs \<Rightarrow> ucast b)) 0 tree \<rparr>"

definition demoEnvFive :: "bytes list Env" where
  "demoEnvFive =
     demoEnvChained \<lparr> getFromBlocks :=
       \<lambda>lastBlock fullBlock. Inr [ExitEventAbi (demoEvent 5 1 13)] \<rparr>"

definition demoEnvFour :: "bytes list Env" where
  "demoEnvFour =
     demoEnvChained \<lparr> getFromBlocks :=
       \<lambda>lastBlock fullBlock. Inr [ExitEventAbi (demoEvent 4 1 14)] \<rparr>"

definition demoEnvBoth :: "bytes list Env" where
  "demoEnvBoth =
     demoEnvChained \<lparr> getFromBlocks :=
       \<lambda>lastBlock fullBlock.
         Inr [ExitEventAbi (demoEvent 5 1 13), ExitEventAbi (demoEvent 4 1 14)] \<rparr>"

definition demoRequest14 :: PostBlockRequest where
  "demoRequest14 =
     \<lparr> FullBlock = \<lparr> Block = demoHeader 14, Receipts = [] \<rparr>,
       Epoch = 1, IsEpochEndingBlock = False, CheckpointInterval = 3 \<rparr>"

definition demoEmptyManager :: checkpointManager where
  "demoEmptyManager =
     \<lparr> lastSentBlock = 10,
       state = \<lparr> eventTable = [], lastSaved = 12, pendingSlashExitIDs = [], journal = [] \<rparr>,
       spawned = [] \<rparr>"



section \<open>Properties\<close>

subsection \<open>Runs on the small chain\<close>

lemmas demo_defs = demoEnv_def demoHeader_def demoExtra_def demoExtraOf_def demoInput_def
  demoEvent_def demoEvents_def demoStore_def demoRequest_def demoManager_def demoLog_def demoTx_def
  demoEventsReordered_def demoEnvReordered_def demoEnvNoEvents_def demoEnv38_def
  demoEnvRejecting_def demoEnv39_def demoForeignHeader_def demoEnvChained_def demoEnvFive_def
  demoEnvFour_def demoEnvBoth_def demoRequest14_def demoEmptyManager_def

lemmas store_defs = getLastSaved_def insertExitEvents_def updateLastSaved_def
  removeSlashExitEvents_def getExitEventsByEpoch_def getExitEventsForProof_def getExitEvent_def
  getPendingSlashExitIDs_def

lemma demo_PostBlock:
  "PostBlock demoEnv demoRequest demoManager =
     (None,
      \<lparr> lastSentBlock = 13,
        state = \<lparr> eventTable = [((1, 1), demoEvent 1 1 11), ((2, 2), demoEvent 2 2 20),
                                ((1, 3), demoEvent 3 1 12), ((1, 4), demoEvent 4 1 13),
                                ((2, 5), demoEvent 5 2 13), ((2, 6), demoEvent 6 2 13)],
                  lastSaved = 13,
                  pendingSlashExitIDs = [1, 3],
                  journal = [OpInsertExitEvents
                               [demoEvent 4 1 13, demoEvent 5 2 13, demoEvent 6 2 13],
                             OpUpdateLastSaved 13, OpRemoveSlashExitEvents [2]] \<rparr>,
        spawned = [(demoHeader 13, 1, False)] \<rparr>)"
  by (simp add: PostBlock_def store_defs isCheckpointBlock_def ExitEventID_def demo_defs)


subsection \<open>C1: catching up over three epoch ends\<close>

lemma encodeAndSendCheckpoint_accepted:
  assumes "GetValidators env (Number h) = Inr v"
      and "abiEncodeCheckpointBlock env (Number h) (Hash h) e v = Inr i"
      and "\<And>hist txn. \<exists>r. SendTransaction env hist txn = Inr r \<and> Status r \<noteq> ReceiptFailed env"
  shows "encodeAndSendCheckpoint env h e True w0 =
           (None, w0 \<lparr> sent := sent w0 @
              [\<lparr> To = Some (checkpointManagerAddr env), Input = i, Type = TransactionDynamicFee \<rparr>] \<rparr>)"
proof -
  let ?txn = "\<lparr> To = Some (checkpointManagerAddr env), Input = i, Type = TransactionDynamicFee \<rparr>"
  from assms(3)[of "sent w0" ?txn] obtain r where
    "SendTransaction env (sent w0) ?txn = Inr r" "Status r \<noteq> ReceiptFailed env" by blast
  with assms(1,2) show ?thesis
    by (simp add: encodeAndSendCheckpoint_def Let_def)
qed

text \<open>
  Claim C1. The root chain reports block 10 as its latest checkpoint, the blockchain holds
  the headers 11 to 40, and their epoch numbers change exactly after the blocks 15 and 25;
  \<open>latestHeader\<close> is the header of block 40 and the caller passes
  \<^verbatim>\<open>isEndOfEpoch = true\<close>. When the validator sets can be fetched, the payloads can be
  encoded and the root chain accepts every transaction, \<^verbatim>\<open>submitCheckpoint\<close> returns
  \<^verbatim>\<open>nil\<close> and has sent exactly three transactions, in this order: the checkpoints of the
  blocks 15, 25 and 40. Each payload carries the epoch number found in the metadata of
  its own block and the validator set that \<^verbatim>\<open>GetValidators\<close> returns for that block
  (for block 15 as well as for 25 and 40).
\<close>

theorem submitCheckpoint_catch_up:
  fixes hdr :: "uint64 \<Rightarrow> Header" and ex :: "uint64 \<Rightarrow> Extra"
  assumes cursor: "getLatestCheckpointBlock env = Inr 10"
      and latest: "latestHeader = hdr 40"
      and chain: "\<And>n. 11 \<le> n \<Longrightarrow> n \<le> 40 \<Longrightarrow> GetHeaderByNumber env n = Some (hdr n)"
      and numbers: "\<And>n. 11 \<le> n \<Longrightarrow> n \<le> 40 \<Longrightarrow> Number (hdr n) = n"
      and extras: "\<And>n. 11 \<le> n \<Longrightarrow> n \<le> 40 \<Longrightarrow> GetIbftExtra env (ExtraData (hdr n)) = Inr (ex n)"
      and epoch1: "\<And>n. 11 \<le> n \<Longrightarrow> n \<le> 15 \<Longrightarrow>
                     CheckpointData.EpochNumber (Extra.Checkpoint (ex n)) = e1"
      and epoch2: "\<And>n. 16 \<le> n \<Longrightarrow> n \<le> 25 \<Longrightarrow>
                     CheckpointData.EpochNumber (Extra.Checkpoint (ex n)) = e2"
      and epoch3: "\<And>n. 26 \<le> n \<Longrightarrow> n \<le> 40 \<Longrightarrow>
                     CheckpointData.EpochNumber (Extra.Checkpoint (ex n)) = e3"
      and boundaries: "e1 \<noteq> e2" "e2 \<noteq> e3"
      and validators: "\<And>n. n = 15 \<or> n = 25 \<or> n = 40 \<Longrightarrow> GetValidators env n = Inr (vs n)"
      and signatures: "\<And>n. n = 15 \<or> n = 25 \<or> n = 40 \<Longrightarrow>
                     UnmarshalSignature env (AggregatedSignature (Committed (ex n))) = Inr (ag n) \<and>
                     ToBigInt env (ag n) = Inr (sg n)"
      and encoded: "\<And>n. n = 15 \<or> n = 25 \<or> n = 40 \<Longrightarrow>
                     EncodeSubmitCheckpoint env
                       \<lparr> CheckpointMetadata =
                           \<lparr> BlockHash = Hash (hdr n),
                             BlockRound = unat (CheckpointData.BlockRound (Extra.Checkpoint (ex n))),
                             CurrentValidatorSetHash = CurrentValidatorsHash (Extra.Checkpoint (ex n)) \<rparr>,
                         Checkpoint =
                           \<lparr> Checkpoint.Epoch = unat (CheckpointData.EpochNumber (Extra.Checkpoint (ex n))),
                             Checkpoint.BlockNumber = unat n,
                             EventRoot = CheckpointData.EventRoot (Extra.Checkpoint (ex n)) \<rparr>,
                         Signature = sg n,
                         Bitmap = Signature.Bitmap (Committed (ex n)),
                         NewValidatorSet = vs n \<rparr> = Inr (inp n)"
      and accepted: "\<And>hist txn. \<exists>r. SendTransaction env hist txn = Inr r \<and>
                                        Status r \<noteq> ReceiptFailed env"
  shows "submitCheckpoint env latestHeader True w =
           Some (None, w \<lparr> sent := sent w @
              [\<lparr> To = Some (checkpointManagerAddr env), Input = inp 15, Type = TransactionDynamicFee \<rparr>,
               \<lparr> To = Some (checkpointManagerAddr env), Input = inp 25, Type = TransactionDynamicFee \<rparr>,
               \<lparr> To = Some (checkpointManagerAddr env), Input = inp 40, Type = TransactionDynamicFee \<rparr>] \<rparr>)"
proof -
  have enc: "abiEncodeCheckpointBlock env n (Hash (hdr n)) (ex n) (vs n) = Inr (inp n)"
    if "n = 15 \<or> n = 25 \<or> n = 40" for n
    using signatures[OF that] encoded[OF that] by (simp add: abiEncodeCheckpointBlock_def)
  have send: "encodeAndSendCheckpoint env (hdr n) (ex n) True w0 =
           (None, w0 \<lparr> sent := sent w0 @
              [\<lparr> To = Some (checkpointManagerAddr env), Input = inp n, Type = TransactionDynamicFee \<rparr>] \<rparr>)"
    if "n = 15 \<or> n = 25 \<or> n = 40" for n w0
  proof (rule encodeAndSendCheckpoint_accepted)
    have n: "Number (hdr n) = n" using that numbers[of n] by auto
    show "GetValidators env (Number (hdr n)) = Inr (vs n)"
      using validators[OF that] n by simp
    show "abiEncodeCheckpointBlock env (Number (hdr n)) (Hash (hdr n)) (ex n) (vs n) = Inr (inp n)"
      using enc[OF that] n by simp
    show "\<exists>r. SendTransaction env hist txn = Inr r \<and> Status r \<noteq> ReceiptFailed env" for hist txn
      by (rule accepted)
  qed
  have walk: "pendingCheckpoints env (hdr 40) 12
                \<lparr> parentHeader = Some (hdr 11), parentExtra = Some (ex 11), currentExtra = None \<rparr> w =
              Some (Inr \<lparr> parentHeader = Some (hdr 40), parentExtra = Some (ex 40),
                          currentExtra = Some (ex 40) \<rparr>,
                    w \<lparr> sent := sent w @
              [\<lparr> To = Some (checkpointManagerAddr env), Input = inp 15, Type = TransactionDynamicFee \<rparr>,
               \<lparr> To = Some (checkpointManagerAddr env), Input = inp 25, Type = TransactionDynamicFee \<rparr>] \<rparr>)"
    by (simp add: pendingCheckpoints.simps chain numbers extras epoch1 epoch2 epoch3 boundaries send)
  show ?thesis
    using walk
    by (simp add: submitCheckpoint_def cursor latest chain numbers extras send Let_def)
qed

theorem submitCheckpoint_catch_up_witness:
  "submitCheckpoint demoEnv (demoHeader 40) True \<lparr> sent = [] \<rparr> =
     Some (None, \<lparr> sent = [demoTx [1, 15, 1], demoTx [2, 25, 1], demoTx [3, 40, 1]] \<rparr>)"
proof -
  have cursor: "getLatestCheckpointBlock demoEnv = Inr 10"
    by (simp add: getLatestCheckpointBlock_def demoEnv_def)
  have chain: "GetHeaderByNumber demoEnv n = Some (demoHeader n)" if "11 \<le> n" "n \<le> 40" for n
    using that by (simp add: demoEnv_def)
  have numbers: "Number (demoHeader n) = n" for n
    by (simp add: demoHeader_def)
  have extras: "GetIbftExtra demoEnv (ExtraData (demoHeader n)) = Inr (demoExtraOf n)" for n
    by (simp add: demoEnv_def demoHeader_def demoExtraOf_def)
  have epoch1: "CheckpointData.EpochNumber (Extra.Checkpoint (demoExtraOf n)) = 1"
    if "11 \<le> n" "n \<le> 15" for n
    using that by (simp add: demoExtraOf_def demoExtra_def)
  have epoch2: "CheckpointData.EpochNumber (Extra.Checkpoint (demoExtraOf n)) = 2"
    if "16 \<le> n" "n \<le> 25" for n
  proof -
    from that have "\<not> n \<le> 15" by unat_arith
    with that show ?thesis by (simp add: demoExtraOf_def demoExtra_def)
  qed
  have epoch3: "CheckpointData.EpochNumber (Extra.Checkpoint (demoExtraOf n)) = 3"
    if "26 \<le> n" "n \<le> 40" for n
  proof -
    from that have "\<not> n \<le> 15" "\<not> n \<le> 25" by unat_arith+
    with that show ?thesis by (simp add: demoExtraOf_def demoExtra_def)
  qed
  have "submitCheckpoint demoEnv (demoHeader 40) True \<lparr> sent = [] \<rparr> =
        Some (None, \<lparr> sent = [] \<rparr> \<lparr> sent := sent \<lparr> sent = [] \<rparr> @
          [\<lparr> To = Some (checkpointManagerAddr demoEnv), Input = demoInput 15, Type = TransactionDynamicFee \<rparr>,
           \<lparr> To = Some (checkpointManagerAddr demoEnv), Input = demoInput 25, Type = TransactionDynamicFee \<rparr>,
           \<lparr> To = Some (checkpointManagerAddr demoEnv), Input = demoInput 40, Type = TransactionDynamicFee \<rparr>] \<rparr>)"
  proof (rule submitCheckpoint_catch_up[where hdr = demoHeader and ex = demoExtraOf
            and ?e1.0 = 1 and ?e2.0 = 2 and ?e3.0 = 3
            and vs = "\<lambda>n. [[ucast n]]"
            and ag = "\<lambda>n. AggregatedSignature (Committed (demoExtraOf n))"
            and sg = "\<lambda>n. map uint (AggregatedSignature (Committed (demoExtraOf n)))"
            and inp = demoInput])
    show "getLatestCheckpointBlock demoEnv = Inr 10" by (rule cursor)
    show "demoHeader 40 = demoHeader 40" by simp
    show "GetHeaderByNumber demoEnv n = Some (demoHeader n)" if "11 \<le> n" "n \<le> 40" for n
      using that by (rule chain)
    show "Number (demoHeader n) = n" for n by (rule numbers)
    show "GetIbftExtra demoEnv (ExtraData (demoHeader n)) = Inr (demoExtraOf n)" for n
      by (rule extras)
    show "CheckpointData.EpochNumber (Extra.Checkpoint (demoExtraOf n)) = 1"
      if "11 \<le> n" "n \<le> 15" for n using that by (rule epoch1)
    show "CheckpointData.EpochNumber (Extra.Checkpoint (demoExtraOf n)) = 2"
      if "16 \<le> n" "n \<le> 25" for n using that by (rule epoch2)
    show "CheckpointData.EpochNumber (Extra.Checkpoint (demoExtraOf n)) = 3"
      if "26 \<le> n" "n \<le> 40" for n using that by (rule epoch3)
    show "(1::uint64) \<noteq> 2" "(2::uint64) \<noteq> 3" by simp_all
    show "GetValidators demoEnv n = Inr [[ucast n]]" for n
      by (simp add: demoEnv_def)
    show "UnmarshalSignature demoEnv (AggregatedSignature (Committed (demoExtraOf n))) =
            Inr (AggregatedSignature (Committed (demoExtraOf n))) \<and>
          ToBigInt demoEnv (AggregatedSignature (Committed (demoExtraOf n))) =
            Inr (map uint (AggregatedSignature (Committed (demoExtraOf n))))" for n
      by (simp add: demoEnv_def)
    show "EncodeSubmitCheckpoint demoEnv
           \<lparr> CheckpointMetadata =
               \<lparr> BlockHash = Hash (demoHeader n),
                 BlockRound = unat (CheckpointData.BlockRound (Extra.Checkpoint (demoExtraOf n))),
                 CurrentValidatorSetHash = CurrentValidatorsHash (Extra.Checkpoint (demoExtraOf n)) \<rparr>,
             Checkpoint =
               \<lparr> Checkpoint.Epoch = unat (CheckpointData.EpochNumber (Extra.Checkpoint (demoExtraOf n))),
                 Checkpoint.BlockNumber = unat n,
                 EventRoot = CheckpointData.EventRoot (Extra.Checkpoint (demoExtraOf n)) \<rparr>,
             Signature = map uint (AggregatedSignature (Committed (demoExtraOf n))),
             Bitmap = Signature.Bitmap (Committed (demoExtraOf n)),
             NewValidatorSet = [[ucast n]] \<rparr> = Inr (demoInput n)"
      if "n = 15 \<or> n = 25 \<or> n = 40" for n
      using that by (auto simp: demoEnv_def demoExtraOf_def demoExtra_def demoInput_def)
    show "\<exists>r. SendTransaction demoEnv hist txn = Inr r \<and> Status r \<noteq> ReceiptFailed demoEnv"
      for hist txn
      by (simp add: demoEnv_def)
  qed
  then show ?thesis
    by (simp add: demoTx_def demoInput_def demoEnv_def)
qed

subsection \<open>C2: the event root does not depend on the order of extraction\<close>

lemma splitEvents_acc:
  "splitEvents events exits slashed = (exits @ exitsOf events, slashed @ slashedOf events)"
proof (induction events arbitrary: exits slashed)
  case Nil
  then show ?case by (simp add: exitsOf_def slashedOf_def map_filter_simps)
next
  case (Cons e events)
  then show ?case
    by (cases e) (simp_all add: exitsOf_def slashedOf_def map_filter_simps)
qed











subsection \<open>C3: events are written before the watermark\<close>



subsection \<open>C5: the batch of slash exit proofs skips failures\<close>

lemma slashExitProofs_acc:
  "slashExitProofs env st ids proofs logs =
     (proofs @ List.map_filter (\<lambda>i. case GenerateExitProof env st i of Inl _ \<Rightarrow> None | Inr p \<Rightarrow> Some p) ids,
      logs @ List.map_filter (\<lambda>i. case GenerateExitProof env st i of
                 Inl err \<Rightarrow> Some (Info ''failed to create a proof for slash exit event (ID=%d): %v'' [ArgUint i] err)
               | Inr _ \<Rightarrow> None) ids)"
  by (induction ids arbitrary: proofs logs) (auto simp: List.map_filter_simps split: sum.splits)

text \<open>
  Claim C5. \<^verbatim>\<open>GenerateSlashExitProofs\<close> returns an error only when the pending identifiers
  cannot be read. Otherwise it returns, with a \<^verbatim>\<open>nil\<close> error, the proofs of exactly those
  pending identifiers for which \<^verbatim>\<open>GenerateExitProof\<close> succeeds, in the order of the
  identifiers.
\<close>

theorem GenerateSlashExitProofs_skips_failures:
  "fst (GenerateSlashExitProofs env st) =
     (case getPendingSlashExitIDs env st of
        Inl err \<Rightarrow> Inl (Wrapf ''failed to retrieve pending slash exit ids: %w'' [] err)
      | Inr ids \<Rightarrow>
          Inr (List.map_filter
                 (\<lambda>i. case GenerateExitProof env st i of Inl _ \<Rightarrow> None | Inr p \<Rightarrow> Some p) ids))"
  by (simp add: GenerateSlashExitProofs_def slashExitProofs_acc split: sum.splits)

theorem GenerateSlashExitProofs_skips_failures_witness:
  "fst (GenerateSlashExitProofs demoEnv demoStore) =
     Inr [\<lparr> ProofData = [1],
            Metadata = \<lparr> LeafIndex = 0, ExitEvent = demoEvent 1 1 11, CheckpointBlock = 40 \<rparr> \<rparr>,
          \<lparr> ProofData = [1],
            Metadata = \<lparr> LeafIndex = 1, ExitEvent = demoEvent 3 1 12, CheckpointBlock = 40 \<rparr> \<rparr>]"
  using GenerateSlashExitProofs_skips_failures[of demoEnv demoStore]
  by (simp add: GenerateExitProof_def createExitTree_def store_defs map_filter_simps
        ExitEventID_def demo_defs)

subsection \<open>C6: exit events of an epoch-ending block\<close>

text \<open>
  Claim C6. For a log whose first topic is the signature of the exit event and that
  decodes, \<^verbatim>\<open>parseEvent\<close> returns the exit event with a match. If the metadata of the header
  carries a validator set delta, the event is attributed to the epoch number of the header
  plus one and to the block number of the header plus one (both in \<^verbatim>\<open>uint64\<close>
  arithmetic); otherwise to the epoch and the number of the header itself.
\<close>

theorem parseEvent_exit_attribution:
  assumes "Topics l = topic0 # rest"
      and "topic0 = ExitEventSig env"
      and "GetIbftExtra env (ExtraData h) = Inr extra"
      and "ParseL2StateSyncedLog env l = Inr ev"
  shows "parseEvent env h l =
           (Some (ExitEventAbi
              \<lparr> L2StateSyncedEvent = ev,
                EpochNumber = (if Validators extra \<noteq> None
                               then CheckpointData.EpochNumber (Extra.Checkpoint extra) + 1
                               else CheckpointData.EpochNumber (Extra.Checkpoint extra)),
                BlockNumber = (if Validators extra \<noteq> None then Number h + 1 else Number h) \<rparr>),
            True, None)"
  using assms by (simp add: parseEvent_def decodeExitEvent_def Let_def)

theorem parseEvent_exit_attribution_witness:
  "parseEvent demoEnv (demoHeader 15) demoLog =
     (Some (ExitEventAbi
        \<lparr> L2StateSyncedEvent = \<lparr> ID = 3, Sender = [5], Receiver = [], Data = [0, 0, 0] \<rparr>,
          EpochNumber = 2, BlockNumber = 16 \<rparr>), True, None)"
proof -
  have h1: "Topics demoLog = 1 # [77]" by (simp add: demoLog_def)
  have h2: "1 = ExitEventSig demoEnv" by (simp add: demoEnv_def)
  have h3: "GetIbftExtra demoEnv (ExtraData (demoHeader 15)) = Inr (demoExtra 1 1)"
    by (simp add: demoEnv_def demoHeader_def)
  have h4: "ParseL2StateSyncedLog demoEnv demoLog =
              Inr \<lparr> ID = 3, Sender = [5], Receiver = [], Data = [0, 0, 0] \<rparr>"
    by (simp add: demoEnv_def demoLog_def)
  from parseEvent_exit_attribution[OF h1 h2 h3 h4] show ?thesis
    by (simp add: demoExtra_def demoHeader_def)
qed

subsection \<open>C7: no covering checkpoint\<close>

text \<open>
  Claim C7. When the exit event is stored, the root chain answers, and the decoded answer
  reports \<open>isFound = false\<close>, \<^verbatim>\<open>GenerateExitProof\<close> returns no proof but the error
  ``checkpoint block not found for exit ID \<open>n\<close>''. This is a plain message, different from
  the error returned when the call to the root chain fails, which wraps the error of the
  transport.
\<close>

theorem GenerateExitProof_checkpoint_not_found:
  assumes "getExitEvent env exitID st = Inr exitEvent"
      and "EncodeGetCheckpointBlock env (unat (ExitEvent.BlockNumber exitEvent)) = Inr input"
      and "Call env ZeroAddress (checkpointManagerAddr env) input = Inr resp"
      and "DecodeHex env resp = Inr raw"
      and "DecodeGetCheckpointBlockResponse env raw = Inr (AbiMap m)"
      and "map_of m ''isFound'' = Some (AbiBool False)"
  shows "GenerateExitProof env st exitID =
           Inl (Errorf ''checkpoint block not found for exit ID %d'' [ArgUint exitID]) \<and>
         (\<forall>err. GenerateExitProof (env \<lparr> Call := \<lambda>from to data. Inl err \<rparr>) st exitID =
                  Inl (Wrapf ''failed to retrieve checkpoint block for exit ID %d: %w''
                         [ArgUint exitID] err)) \<and>
         (\<forall>err. Errorf ''checkpoint block not found for exit ID %d'' [ArgUint exitID] \<noteq>
                 Wrapf ''failed to retrieve checkpoint block for exit ID %d: %w''
                         [ArgUint exitID] err)"
  using assms by (simp add: GenerateExitProof_def getExitEvent_def)

theorem GenerateExitProof_checkpoint_not_found_witness:
  "GenerateExitProof demoEnv demoStore 2 =
     Inl (Errorf ''checkpoint block not found for exit ID %d'' [ArgUint 2])"
proof -
  have h1: "getExitEvent demoEnv 2 demoStore = Inr (demoEvent 2 2 20)"
    by (simp add: store_defs demo_defs)
  have h2: "EncodeGetCheckpointBlock demoEnv (unat (ExitEvent.BlockNumber (demoEvent 2 2 20))) =
              Inr [1, 20]"
    by (simp add: demoEnv_def demoEvent_def)
  have h3: "Call demoEnv ZeroAddress (checkpointManagerAddr demoEnv) [1, 20] = Inr ''none''"
    by (simp add: demoEnv_def)
  have h4: "DecodeHex demoEnv ''none'' = Inr [0, 0]"
    by (simp add: demoEnv_def)
  have h5: "DecodeGetCheckpointBlockResponse demoEnv [0, 0] =
              Inr (AbiMap [(''isFound'', AbiBool False), (''checkpointBlock'', AbiBigInt 0)])"
    by (simp add: demoEnv_def)
  have h6: "map_of [(''isFound'', AbiBool False), (''checkpointBlock'', AbiBigInt 0)] ''isFound'' =
              Some (AbiBool False)"
    by simp
  from GenerateExitProof_checkpoint_not_found[OF h1 h2 h3 h4 h5 h6] show ?thesis
    by simp
qed

subsection \<open>C8: when checkpoint submission is launched\<close>

text \<open>
  Claim C8, amended. \<^verbatim>\<open>PostBlock\<close> starts the goroutine that submits a checkpoint if and
  only if it returns \<^verbatim>\<open>nil\<close> (no earlier step has failed), the miner of the block is the
  address of the node's key, and the block ends an epoch or its number is
  \<^verbatim>\<open>lastSentBlock\<close> plus the checkpoint interval. When it starts the goroutine,
  \<^verbatim>\<open>lastSentBlock\<close> is the number of the block and the result is \<^verbatim>\<open>nil\<close>; otherwise
  \<^verbatim>\<open>lastSentBlock\<close> keeps its value. The result and the new state depend on the key, the
  extractor and the store only, not on the blockchain, the consensus backend or the root
  chain that the submission uses. A submission that returns an error makes the goroutine
  add one warning to the log.
\<close>

theorem PostBlock_launch:
  assumes "PostBlock env req c = (res, c')"
      and "hdr = Block (FullBlock req)"
  shows "(spawned c' \<noteq> spawned c \<longleftrightarrow>
            res = None \<and> keyAddress env = Miner hdr \<and>
            (IsEpochEndingBlock req \<or> Number hdr = lastSentBlock c + CheckpointInterval req)) \<and>
         (spawned c' \<noteq> spawned c \<longrightarrow>
            spawned c' = spawned c @ [(hdr, PostBlockRequest.Epoch req, IsEpochEndingBlock req)] \<and>
            lastSentBlock c' = Number hdr \<and> res = None) \<and>
         (spawned c' = spawned c \<longrightarrow> lastSentBlock c' = lastSentBlock c) \<and>
         (\<forall>env' :: 'b Env. keyAddress env' = keyAddress env \<and> getFromBlocks env' = getFromBlocks env \<and>
                 storeFault env' = storeFault env
                 \<longrightarrow> PostBlock env' req c = (res, c')) \<and>
         (\<forall>w logs err w'.
            submitCheckpoint env hdr (IsEpochEndingBlock req) w = Some (Some err, w') \<and>
            err \<noteq> NilPointerDereference \<and> err \<noteq> IndexOutOfRange
            \<longrightarrow> PostBlock_goroutine env (hdr, PostBlockRequest.Epoch req, IsEpochEndingBlock req)
                  (w, logs) =
                Some (Returned w'
                        (logs @ [Warn ''failed to submit checkpoint'' (Number hdr)
                                   (PostBlockRequest.Epoch req) err])))"
    (is "?iff \<and> ?launched \<and> ?quiet \<and> ?independent \<and> ?logged")
proof -
  have launch: "?iff \<and> ?launched \<and> ?quiet"
    using assms
    by (auto simp: PostBlock_def isCheckpointBlock_def Let_def
             split: sum.splits prod.splits if_splits)
  have independent: ?independent
  proof (intro allI impI, elim conjE)
    fix env' :: "'b Env"
    assume same: "keyAddress env' = keyAddress env" "getFromBlocks env' = getFromBlocks env"
                 "storeFault env' = storeFault env"
    have ops: "getLastSaved env' = getLastSaved env" "insertExitEvents env' = insertExitEvents env"
         "updateLastSaved env' = updateLastSaved env"
         "removeSlashExitEvents env' = removeSlashExitEvents env"
      by (simp_all add: fun_eq_iff same getLastSaved_def insertExitEvents_def
            updateLastSaved_def removeSlashExitEvents_def)
    have "PostBlock env' req c = PostBlock env req c"
      by (cases "getLastSaved env (state c)")
         (simp_all add: PostBlock_def ops same cong: sum.case_cong if_cong)
    with assms(1) show "PostBlock env' req c = (res, c')" by simp
  qed
  have logged: ?logged
    by (simp add: PostBlock_goroutine_def)
  from launch independent logged show ?thesis by blast
qed

lemma demo_PostBlock_rejecting:
  "PostBlock demoEnvRejecting demoRequest demoManager = PostBlock demoEnv demoRequest demoManager"
  by (simp add: PostBlock_def store_defs isCheckpointBlock_def ExitEventID_def demo_defs)

lemma demo_submit_rejected:
  "submitCheckpoint demoEnvRejecting (demoHeader 13) False \<lparr> sent = [] \<rparr> =
     Some (Some (External ''connection refused''), \<lparr> sent = [demoTx [1, 13, 0]] \<rparr>)"
  by (simp add: submitCheckpoint_def getLatestCheckpointBlock_def pendingCheckpoints.simps
        encodeAndSendCheckpoint_def abiEncodeCheckpointBlock_def Let_def demo_defs)

theorem PostBlock_launch_witness:
  "spawned (snd (PostBlock demoEnvRejecting demoRequest demoManager)) =
     [(demoHeader 13, 1, False)] \<and>
   lastSentBlock (snd (PostBlock demoEnvRejecting demoRequest demoManager)) = 13 \<and>
   fst (PostBlock demoEnvRejecting demoRequest demoManager) = None \<and>
   PostBlock demoEnv demoRequest demoManager =
     PostBlock demoEnvRejecting demoRequest demoManager \<and>
   PostBlock_goroutine demoEnvRejecting (demoHeader 13, 1, False) (\<lparr> sent = [] \<rparr>, []) =
     Some (Returned \<lparr> sent = [demoTx [1, 13, 0]] \<rparr>
             [Warn ''failed to submit checkpoint'' 13 1 (External ''connection refused'')])"
proof -
  let ?run = "PostBlock demoEnvRejecting demoRequest demoManager"
  have h1: "?run = (fst ?run, snd ?run)"
    by simp
  have h2: "demoHeader 13 = Block (FullBlock demoRequest)"
    by (simp add: demoRequest_def)
  note inst = PostBlock_launch[OF h1 h2]
  have ok: "fst ?run = None"
    by (simp add: demo_PostBlock_rejecting demo_PostBlock)
  have cond: "keyAddress demoEnvRejecting = Miner (demoHeader 13) \<and>
              (IsEpochEndingBlock demoRequest \<or>
               Number (demoHeader 13) = lastSentBlock demoManager + CheckpointInterval demoRequest)"
    by (simp add: demo_defs)
  from inst[THEN conjunct1] ok cond have started: "spawned (snd ?run) \<noteq> spawned demoManager"
    by blast
  from inst[THEN conjunct2, THEN conjunct1, THEN mp, OF started]
  have launched: "spawned (snd ?run) = [(demoHeader 13, 1, False)]"
                 "lastSentBlock (snd ?run) = 13"
    by (simp_all add: demoManager_def demoRequest_def demoHeader_def)
  have agree: "keyAddress demoEnv = keyAddress demoEnvRejecting \<and>
               getFromBlocks demoEnv = getFromBlocks demoEnvRejecting \<and>
               storeFault demoEnv = storeFault demoEnvRejecting"
    by (simp add: demoEnvRejecting_def)
  from inst[THEN conjunct2, THEN conjunct2, THEN conjunct2, THEN conjunct1, THEN spec,
           THEN mp, OF agree]
  have independent: "PostBlock demoEnv demoRequest demoManager = ?run"
    by simp
  have failed: "submitCheckpoint demoEnvRejecting (demoHeader 13) (IsEpochEndingBlock demoRequest)
                  \<lparr> sent = [] \<rparr> =
                Some (Some (External ''connection refused''), \<lparr> sent = [demoTx [1, 13, 0]] \<rparr>) \<and>
                External ''connection refused'' \<noteq> NilPointerDereference \<and>
                External ''connection refused'' \<noteq> IndexOutOfRange"
    using demo_submit_rejected by (simp add: demoRequest_def)
  from inst[THEN conjunct2, THEN conjunct2, THEN conjunct2, THEN conjunct2,
           THEN spec, THEN spec, THEN spec, THEN spec, THEN mp, OF failed, of "[]"]
  have logged: "PostBlock_goroutine demoEnvRejecting (demoHeader 13, 1, False)
                  (\<lparr> sent = [] \<rparr>, []) =
     Some (Returned \<lparr> sent = [demoTx [1, 13, 0]] \<rparr>
             [Warn ''failed to submit checkpoint'' 13 1 (External ''connection refused'')])"
    by (simp add: demoRequest_def demoHeader_def)
  from launched ok independent logged show ?thesis by (intro conjI)
qed

text \<open>
  Claim C8 as stated. The block is mined by this node and its number is
  \<^verbatim>\<open>lastSentBlock\<close> plus the interval, but the extraction of the events fails:
  \<^verbatim>\<open>PostBlock\<close> returns that error before it reaches the decision and starts nothing.
\<close>

theorem PostBlock_launch_counterexample:
  "keyAddress demoEnvNoEvents = Miner (Block (FullBlock demoRequest)) \<and>
   Number (Block (FullBlock demoRequest)) =
     lastSentBlock demoManager + CheckpointInterval demoRequest \<and>
   PostBlock demoEnvNoEvents demoRequest demoManager =
     (Some (External ''header extra unreadable''), demoManager) \<and>
   spawned (snd (PostBlock demoEnvNoEvents demoRequest demoManager)) = spawned demoManager"
  by (simp add: PostBlock_def store_defs demo_defs)

subsection \<open>C9: the event root of an epoch without exit events\<close>

text \<open>
  Claim C9. If the store can be read and holds no exit event of the epoch,
  \<^verbatim>\<open>BuildEventRoot\<close> returns the zero hash and no error. It returns an error only if
  reading the store fails or if building the tree over a non-empty list of events fails,
  and the error is that of the failed step.
\<close>

theorem BuildEventRoot_empty_epoch:
  "(storeFault env (OpGetExitEventsByEpoch epoch) = None \<and>
    (\<forall>p \<in> set (eventTable st). fst (fst p) \<noteq> epoch)
      \<longrightarrow> BuildEventRoot env st epoch = Inr ZeroHash) \<and>
   (BuildEventRoot env st epoch = Inl err
      \<longrightarrow> storeFault env (OpGetExitEventsByEpoch epoch) = Some err \<or>
          (\<exists>evs. getExitEventsByEpoch env epoch st = Inr evs \<and> evs \<noteq> [] \<and>
                 createExitTree env evs = Inl err))"
proof (intro conjI impI)
  assume "storeFault env (OpGetExitEventsByEpoch epoch) = None \<and>
    (\<forall>p \<in> set (eventTable st). fst (fst p) \<noteq> epoch)"
  then have "getExitEventsByEpoch env epoch st = Inr []"
    by (auto simp: getExitEventsByEpoch_def filter_empty_conv)
  then show "BuildEventRoot env st epoch = Inr ZeroHash"
    by (simp add: BuildEventRoot_def)
next
  assume "BuildEventRoot env st epoch = Inl err"
  then show "storeFault env (OpGetExitEventsByEpoch epoch) = Some err \<or>
          (\<exists>evs. getExitEventsByEpoch env epoch st = Inr evs \<and> evs \<noteq> [] \<and>
                 createExitTree env evs = Inl err)"
    by (auto simp: BuildEventRoot_def getExitEventsByEpoch_def split: sum.splits option.splits if_splits)
qed

theorem BuildEventRoot_empty_epoch_witness:
  "BuildEventRoot demoEnv demoStore 7 = Inr ZeroHash"
proof -
  have "storeFault demoEnv (OpGetExitEventsByEpoch 7) = None \<and>
        (\<forall>p \<in> set (eventTable demoStore). fst (fst p) \<noteq> 7)"
    by (simp add: demoEnv_def demoStore_def)
  with BuildEventRoot_empty_epoch[of demoEnv 7 demoStore] show ?thesis
    by blast
qed

subsection \<open>C10: the metadata of the final checkpoint\<close>






subsection \<open>The tree behind an exit proof\<close>

text \<open>
  A proof returned by \<^verbatim>\<open>GenerateExitProof\<close> comes from the tree over the stored exit
  events of the event's epoch whose block number is at most the checkpoint block that the
  root chain reported: its data and its leaf index are what the tree gives for the
  encoding of the event. How the tree of the \<^verbatim>\<open>merkle\<close> package hashes and how a proof is
  verified is not part of this file.
\<close>

lemma GenerateExitProof_tree:
  assumes "GenerateExitProof env st exitID = Inr p"
  shows "\<exists>exitEvent e leaves tree.
           getExitEvent env exitID st = Inr exitEvent \<and>
           ExitEvent (Metadata p) = exitEvent \<and>
           EncodeL2StateSynced env (L2StateSyncedEvent exitEvent) = Inr e \<and>
           getExitEventsForProof env (ExitEvent.EpochNumber exitEvent)
             (of_nat (CheckpointBlock (Metadata p))) st = Inr leaves \<and>
           createExitTree env leaves = Inr tree \<and>
           TreeLeafIndex env tree e = Inr (LeafIndex (Metadata p)) \<and>
           TreeGenerateProof env tree e = Inr (ProofData p)"
  using assms
  by (auto simp: GenerateExitProof_def
           split: sum.splits option.splits abi_value.splits if_splits)

end
